theory Spec2Isabelle
  imports Main "HOL-Library.Sublist"
begin

section \<open>Strings and characters\<close>

text \<open>
  A JavaScript string is a sequence of UTF-16 code units; a code unit is modelled as an
  integer. \<open>asc\<close> embeds an ASCII literal; the Chinese labels of the source are
  written out by their code points.
\<close>

type_synonym jstring = "int list"

definition asc :: "string \<Rightarrow> jstring" where
  "asc s = map of_char s"

definition is_digit :: "int \<Rightarrow> bool" where
  \<comment> \<open>the class \<open>\d\<close>\<close>
  "is_digit c = (48 \<le> c \<and> c \<le> 57)"

definition is_line_term :: "int \<Rightarrow> bool" where
  \<comment> \<open>the characters that \<open>.\<close> does not match: LF, CR, U+2028, U+2029\<close>
  "is_line_term c = (c = 10 \<or> c = 13 \<or> c = 8232 \<or> c = 8233)"

definition is_space :: "int \<Rightarrow> bool" where
  \<comment> \<open>the class \<open>\s\<close>, which is also what \<open>trim\<close> strips\<close>
  "is_space c = (c \<in> {9, 10, 11, 12, 13, 32, 160, 5760, 8232, 8233, 8239, 8287, 12288, 65279}
                 \<or> (8192 \<le> c \<and> c \<le> 8202))"

definition is_word :: "int \<Rightarrow> bool" where
  \<comment> \<open>the class \<open>\w\<close>: ASCII letters, digits and the underscore\<close>
  "is_word c = ((48 \<le> c \<and> c \<le> 57) \<or> (65 \<le> c \<and> c \<le> 90) \<or> c = 95 \<or> (97 \<le> c \<and> c \<le> 122))"

definition is_colon :: "int \<Rightarrow> bool" where
  \<comment> \<open>the class \<open>[::]\<close> of the source: ASCII colon and the full-width colon U+FF1A\<close>
  "is_colon c = (c = 58 \<or> c = 65306)"

definition trim :: "jstring \<Rightarrow> jstring" where
  "trim s = rev (dropWhile is_space (rev (dropWhile is_space s)))"

definition digits_val :: "jstring \<Rightarrow> int" where
  \<comment> \<open>the value of a string of decimal digits\<close>
  "digits_val s = foldl (\<lambda>a c. 10 * a + (c - 48)) 0 s"

definition dnum :: "jstring \<Rightarrow> int option" where
  "dnum s = (if s \<noteq> [] \<and> list_all is_digit s then Some (digits_val s) else None)"

definition truthy :: "jstring option \<Rightarrow> bool" where
  \<comment> \<open>JavaScript truthiness of a value that is a string, \<open>undefined\<close> or \<open>null\<close>\<close>
  "truthy v = (case v of None \<Rightarrow> False | Some s \<Rightarrow> s \<noteq> [])"

definition or_empty :: "jstring option \<Rightarrow> jstring" where
  \<comment> \<open>\<open>v || ''\<close>\<close>
  "or_empty v = (case v of None \<Rightarrow> [] | Some s \<Rightarrow> s)"

section \<open>Dates\<close>

text \<open>
  A \<open>Date\<close> object holds a time value: a whole number of milliseconds since the epoch with
  absolute value at most 8.64e15, or NaN (an invalid date). Numbers that may be NaN are
  \<open>int option\<close>, with \<open>None\<close> for NaN.
\<close>

datatype date = InvalidDate | Instant int

definition getTime :: "date \<Rightarrow> int option" where
  "getTime d = (case d of InvalidDate \<Rightarrow> None | Instant t \<Rightarrow> Some t)"

definition maxTime :: int where
  "maxTime = 8640000000000000"

definition timeClip :: "int \<Rightarrow> date" where
  "timeClip t = (if \<bar>t\<bar> \<le> maxTime then Instant t else InvalidDate)"

definition newDate_num :: "int option \<Rightarrow> date" where
  \<comment> \<open>\<open>new Date(n)\<close> for a number \<open>n\<close>\<close>
  "newDate_num n = (case n of None \<Rightarrow> InvalidDate | Some t \<Rightarrow> timeClip t)"

definition plus_ms :: "date \<Rightarrow> int \<Rightarrow> date" where
  \<comment> \<open>\<open>new Date(d.getTime() + k)\<close>\<close>
  "plus_ms d k = newDate_num (map_option (\<lambda>t. t + k) (getTime d))"

definition date_le :: "date \<Rightarrow> date \<Rightarrow> bool" where
  \<comment> \<open>\<open>a <= b\<close> on two dates: both become numbers, and a comparison with NaN is false\<close>
  "date_le a b = (case (getTime a, getTime b) of (Some x, Some y) \<Rightarrow> x \<le> y | _ \<Rightarrow> False)"

definition date_gt :: "date \<Rightarrow> date \<Rightarrow> bool" where
  \<comment> \<open>\<open>a > b\<close> on two dates\<close>
  "date_gt a b = (case (getTime a, getTime b) of (Some x, Some y) \<Rightarrow> x > y | _ \<Rightarrow> False)"

definition msPerDay :: int where
  "msPerDay = 86400000"

definition msPerHour :: int where
  "msPerHour = 3600000"

subsection \<open>The calendar of the language standard\<close>

text \<open>
  Days are counted from 1970-01-01. The standard defines the year, month and day of a time
  value through \<open>DayFromYear\<close>, the day number of the first of January of a year; months
  are numbered from 0.
\<close>

definition DayFromYear :: "int \<Rightarrow> int" where
  "DayFromYear y =
     365 * (y - 1970) + (y - 1969) div 4 - (y - 1901) div 100 + (y - 1601) div 400"

definition is_leap :: "int \<Rightarrow> bool" where
  "is_leap y = (y mod 4 = 0 \<and> (y mod 100 \<noteq> 0 \<or> y mod 400 = 0))"

definition YearFromDay :: "int \<Rightarrow> int" where
  \<comment> \<open>\<open>YearFromTime\<close>: the year \<open>y\<close> with \<open>DayFromYear y \<le> z < DayFromYear (y + 1)\<close>, found
      from an estimate by the mean length of a year, which is off by one year at most\<close>
  "YearFromDay z =
     (let y0 = 1970 + (400 * z) div 146097
      in if z < DayFromYear y0 then y0 - 1
         else if DayFromYear (y0 + 1) \<le> z then y0 + 1
         else y0)"

definition month_start :: "bool \<Rightarrow> int \<Rightarrow> int" where
  \<comment> \<open>the day within the year on which month \<open>m\<close> (0 to 11) starts\<close>
  "month_start leap m =
     (let l = (if leap then 1 else 0) in
      if m \<le> 0 then 0 else if m = 1 then 31 else if m = 2 then 59 + l
      else if m = 3 then 90 + l else if m = 4 then 120 + l else if m = 5 then 151 + l
      else if m = 6 then 181 + l else if m = 7 then 212 + l else if m = 8 then 243 + l
      else if m = 9 then 273 + l else if m = 10 then 304 + l else 334 + l)"

definition MonthFromDay :: "bool \<Rightarrow> int \<Rightarrow> int" where
  \<comment> \<open>\<open>MonthFromTime\<close>, from the day within the year\<close>
  "MonthFromDay leap diy =
     (let l = (if leap then 1 else 0) in
      if diy < 31 then 0 else if diy < 59 + l then 1 else if diy < 90 + l then 2
      else if diy < 120 + l then 3 else if diy < 151 + l then 4 else if diy < 181 + l then 5
      else if diy < 212 + l then 6 else if diy < 243 + l then 7 else if diy < 273 + l then 8
      else if diy < 304 + l then 9 else if diy < 334 + l then 10 else 11)"

definition civil_from_days :: "int \<Rightarrow> int \<times> int \<times> int" where
  \<comment> \<open>year, month (0 to 11) and day of the month of a day number\<close>
  "civil_from_days z =
     (let y = YearFromDay z;
          diy = z - DayFromYear y;
          m = MonthFromDay (is_leap y) diy
      in (y, m, diy - month_start (is_leap y) m + 1))"

definition MakeDay :: "int \<Rightarrow> int \<Rightarrow> int \<Rightarrow> int" where
  \<comment> \<open>the day number of a year, a month counted from 0 (months beyond 11 run into the
      next years) and a day of the month\<close>
  "MakeDay y m d =
     (let ym = y + m div 12; mn = m mod 12
      in DayFromYear ym + month_start (is_leap ym) mn + d - 1)"

definition days_in_month :: "int \<Rightarrow> int \<Rightarrow> int" where
  \<comment> \<open>the length of month \<open>m\<close>, here counted from 1\<close>
  "days_in_month y m =
     (if m = 2 then (if is_leap y then 29 else 28)
      else if m \<in> {4, 6, 9, 11} then 30 else 31)"

subsection \<open>The runtime\<close>

text \<open>
  What the code reads from its environment: the offset of the runtime's local time zone
  (milliseconds east of UTC; the zones in question have no daylight saving), the clock,
  and \<open>Date.parse\<close>, whose result on strings outside the ISO format is left to the
  implementation. \<open>None\<close> is NaN.
\<close>

record runtime =
  tzOffset :: int
  now :: int
  dateParse :: "jstring \<Rightarrow> int option"

definition newDate_str :: "runtime \<Rightarrow> jstring \<Rightarrow> date" where
  \<comment> \<open>\<open>new Date(s)\<close> for a string \<open>s\<close>\<close>
  "newDate_str rt s = newDate_num (dateParse rt s)"

definition newDate_now :: "runtime \<Rightarrow> date" where
  \<comment> \<open>\<open>new Date()\<close>\<close>
  "newDate_now rt = timeClip (now rt)"

definition local_ymd :: "runtime \<Rightarrow> date \<Rightarrow> (int \<times> int \<times> int) option" where
  \<comment> \<open>\<open>getFullYear()\<close>, \<open>getMonth()\<close> (0-based) and \<open>getDate()\<close>; all NaN on an invalid date\<close>
  "local_ymd rt d =
     (case d of InvalidDate \<Rightarrow> None
      | Instant t \<Rightarrow>
          Some (civil_from_days ((t + tzOffset rt) div msPerDay)))"

definition newDate_local :: "runtime \<Rightarrow> (int \<times> int \<times> int) option \<Rightarrow> date" where
  \<comment> \<open>\<open>new Date(y, m, d, 0, 0, 0, 0)\<close>: local midnight of the given civil date, month
      0-based; a year from 0 to 99 means 1900 + year\<close>
  "newDate_local rt ymd =
     (case ymd of None \<Rightarrow> InvalidDate
      | Some (y, m, d) \<Rightarrow>
          (let yr = (if 0 \<le> y \<and> y \<le> 99 then 1900 + y else y);
               day = MakeDay yr m d
           in timeClip (day * msPerDay - tzOffset rt)))"

definition date_UTC :: "int \<Rightarrow> int \<Rightarrow> int \<Rightarrow> int \<Rightarrow> int \<Rightarrow> int \<Rightarrow> date" where
  \<comment> \<open>\<open>new Date(Date.UTC(y, m, d, h, min, s))\<close> on finite whole numbers\<close>
  "date_UTC y m d h mi s =
     (let yr = (if 0 \<le> y \<and> y \<le> 99 then 1900 + y else y);
          day = MakeDay yr m d
      in timeClip (day * msPerDay + h * msPerHour + mi * 60000 + s * 1000))"

subsection \<open>The ISO date-time format of \<open>Date.parse\<close>\<close>

definition take_num :: "nat \<Rightarrow> jstring \<Rightarrow> (int \<times> jstring) option" where
  \<comment> \<open>exactly \<open>n\<close> digits at the head of the string\<close>
  "take_num n s =
     (if n \<le> length s then map_option (\<lambda>v. (v, drop n s)) (dnum (take n s)) else None)"

definition iso_year :: "jstring \<Rightarrow> (int \<times> jstring) option" where
  \<comment> \<open>\<open>YYYY\<close>, or an expanded year \<open>+YYYYYY\<close> / \<open>-YYYYYY\<close> (not \<open>-000000\<close>)\<close>
  "iso_year s =
     (case s of
        [] \<Rightarrow> None
      | c # r \<Rightarrow>
          if c = 43 then take_num 6 r
          else if c = 45 then
            (case take_num 6 r of None \<Rightarrow> None
             | Some (v, r') \<Rightarrow> if v = 0 then None else Some (- v, r'))
          else take_num 4 s)"

definition iso_dash_num :: "jstring \<Rightarrow> (int \<times> jstring) option" where
  \<comment> \<open>an optional \<open>-NN\<close>\<close>
  "iso_dash_num s = (case s of c # r \<Rightarrow> (if c = 45 then take_num 2 r else None) | [] \<Rightarrow> None)"

definition iso_sep_num :: "int \<Rightarrow> nat \<Rightarrow> jstring \<Rightarrow> (int \<times> jstring) option" where
  \<comment> \<open>the separator \<open>sep\<close> followed by exactly \<open>n\<close> digits\<close>
  "iso_sep_num sep n s = (case s of c # r \<Rightarrow> (if c = sep then take_num n r else None) | [] \<Rightarrow> None)"

definition iso_offset :: "int \<Rightarrow> jstring \<Rightarrow> int option" where
  \<comment> \<open>the offset to subtract from the local reading: nothing (the runtime's zone),
      \<open>Z\<close>, or \<open>+HH:mm\<close> / \<open>-HH:mm\<close>\<close>
  "iso_offset tz s =
     (case s of
        [] \<Rightarrow> Some tz
      | c # r \<Rightarrow>
          if c = 90 then (if r = [] then Some 0 else None)
          else if c = 43 \<or> c = 45 then
            (case take_num 2 r of None \<Rightarrow> None
             | Some (h, r1) \<Rightarrow>
                 (case iso_sep_num 58 2 r1 of None \<Rightarrow> None
                  | Some (mi, r2) \<Rightarrow>
                      if r2 = [] \<and> h \<le> 23 \<and> mi \<le> 59
                      then Some ((if c = 43 then 1 else - 1) * (h * msPerHour + mi * 60000))
                      else None))
          else None)"

definition iso_time :: "int \<Rightarrow> jstring \<Rightarrow> (int \<times> int) option" where
  \<comment> \<open>\<open>THH:mm\<close>, \<open>THH:mm:ss\<close> or \<open>THH:mm:ss.sss\<close> and the offset; the result is the
      milliseconds within the day and the offset\<close>
  "iso_time tz s =
     (case iso_sep_num 84 2 s of None \<Rightarrow> None
      | Some (h, r1) \<Rightarrow>
          (case iso_sep_num 58 2 r1 of None \<Rightarrow> None
           | Some (mi, r2) \<Rightarrow>
               (let (sec, r3) = (case iso_sep_num 58 2 r2 of None \<Rightarrow> (0, r2) | Some p \<Rightarrow> p);
                    (ms, r4) = (if r3 = r2 then (0, r3)
                                else case iso_sep_num 46 3 r3 of None \<Rightarrow> (0, r3) | Some p \<Rightarrow> p)
                in if (h \<le> 23 \<or> (h = 24 \<and> mi = 0 \<and> sec = 0 \<and> ms = 0)) \<and> mi \<le> 59 \<and> sec \<le> 59
                   then map_option
                          (\<lambda>off. (h * msPerHour + mi * 60000 + sec * 1000 + ms, off))
                          (iso_offset tz r4)
                   else None)))"

definition es_parse :: "int \<Rightarrow> jstring \<Rightarrow> int option" where
  \<comment> \<open>\<open>Date.parse\<close> on the ISO format, in a runtime whose zone offset is \<open>tz\<close>: a date
      alone is read as UTC, a date and time with no offset as local time; an element out
      of range gives NaN. Strings outside the format, which an engine may read as it
      likes, are rejected here.\<close>
  "es_parse tz s =
     (case iso_year s of None \<Rightarrow> None
      | Some (y, r1) \<Rightarrow>
          (let (mo, r2) = (case iso_dash_num r1 of None \<Rightarrow> (1, r1) | Some p \<Rightarrow> p);
               (dd, r3) = (if r2 = r1 then (1, r2)
                           else case iso_dash_num r2 of None \<Rightarrow> (1, r2) | Some p \<Rightarrow> p)
           in if 1 \<le> mo \<and> mo \<le> 12 \<and> 1 \<le> dd \<and> dd \<le> days_in_month y mo
              then (let day = MakeDay y (mo - 1) dd * msPerDay
                    in if r3 = [] then getTime (timeClip day)
                       else (case iso_time tz r3 of None \<Rightarrow> None
                             | Some (ms, off) \<Rightarrow> getTime (timeClip (day + ms - off))))
              else None))"

definition browser_taipei :: "int \<Rightarrow> runtime" where
  \<comment> \<open>a runtime in the zone Asia/Taipei (UTC+8), the clock reading \<open>n\<close>\<close>
  "browser_taipei n = \<lparr>tzOffset = 8 * msPerHour, now = n, dateParse = es_parse (8 * msPerHour)\<rparr>"

definition server_utc :: "int \<Rightarrow> runtime" where
  \<comment> \<open>a runtime whose local zone is UTC, the clock reading \<open>n\<close>\<close>
  "server_utc n = \<lparr>tzOffset = 0, now = n, dateParse = es_parse 0\<rparr>"

section \<open>The date/time normalizer (shared/datetime.ts)\<close>

subsection \<open>The three patterns of \<open>parseModelDateTimeLocal\<close>\<close>

definition tz_tail :: "jstring \<Rightarrow> bool" where
  \<comment> \<open>the whole string matches \<open>[Z\+\-]\d{0,2}:?\d{0,2}\<close>\<close>
  "tz_tail c =
     (case c of
        [] \<Rightarrow> False
      | z # r \<Rightarrow>
          (z = 90 \<or> z = 43 \<or> z = 45) \<and>
          list_ex (\<lambda>k. k \<le> length r \<and> list_all is_digit (take k r) \<and>
                     (let r' = drop k r;
                          r'' = (case r' of [] \<Rightarrow> [] | x # xs \<Rightarrow> if x = 58 then xs else r')
                      in (list_all is_digit r' \<and> length r' \<le> 2) \<or>
                         (list_all is_digit r'' \<and> length r'' \<le> 2)))
                  [0, 1, 2])"

fun iso_tz_scan :: "bool \<Rightarrow> jstring \<Rightarrow> bool" where
  \<comment> \<open>\<open>seenT\<close>: a \<open>T\<close> stands before this position with no line terminator after it\<close>
  "iso_tz_scan seenT [] = False"
| "iso_tz_scan seenT (c # cs) =
     ((seenT \<and> tz_tail (c # cs)) \<or>
      iso_tz_scan (if c = 84 then True else if is_line_term c then False else seenT) cs)"

definition re_iso_tz :: "jstring \<Rightarrow> bool" where
  \<comment> \<open>\<open>/T.*[Z\+\-]\d{0,2}:?\d{0,2}$/.test(s)\<close>: some suffix is an offset tail, and a
      \<open>T\<close> stands before it with no line terminator in between\<close>
  "re_iso_tz s = iso_tz_scan False s"

definition is_dash :: "int \<Rightarrow> bool" where
  "is_dash c = (c = 45)"

definition date_shape :: "(int \<Rightarrow> bool) list" where
  \<comment> \<open>\<open>\d{4}-\d{2}-\d{2}\<close>\<close>
  "date_shape = [is_digit, is_digit, is_digit, is_digit, is_dash, is_digit, is_digit, is_dash,
                 is_digit, is_digit]"

definition re_date_time :: "jstring \<Rightarrow> bool" where
  \<comment> \<open>\<open>/^(\d{4}-\d{2}-\d{2})[ T](\d{2}:\d{2})$/\<close>\<close>
  "re_date_time s =
     list_all2 (\<lambda>p c. p c)
       (date_shape @ [\<lambda>c. c = 32 \<or> c = 84, is_digit, is_digit, \<lambda>c. c = 58, is_digit, is_digit]) s"

definition re_date_only :: "jstring \<Rightarrow> bool" where
  \<comment> \<open>\<open>/^(\d{4}-\d{2}-\d{2})$/\<close>\<close>
  "re_date_only s = list_all2 (\<lambda>p c. p c) date_shape s"

definition valid_or_null :: "date \<Rightarrow> date option" where
  \<comment> \<open>\<open>isNaN(d.getTime()) ? null : d\<close>\<close>
  "valid_or_null d = (case d of InvalidDate \<Rightarrow> None | Instant t \<Rightarrow> Some d)"

definition parseModelDateTimeLocal :: "runtime \<Rightarrow> jstring option \<Rightarrow> date option" where
  "parseModelDateTimeLocal rt v =
     (if \<not> truthy v then None
      else (let s = the v in
        if re_iso_tz s then valid_or_null (newDate_str rt s)
        else if re_date_time s
          then valid_or_null (newDate_str rt (take 10 s @ asc ''T'' @ drop 11 s @ asc ''+08:00''))
        else if re_date_only s
          then valid_or_null (newDate_str rt (s @ asc ''T00:00+08:00''))
        else valid_or_null (newDate_str rt s)))"

subsection \<open>\<open>normalizeEventTimesFromText\<close>\<close>

record norm_args =
  startTime :: "jstring option"
  endTime :: "jstring option"
  allDay :: "bool option"

record norm_result =
  nstart :: date
  nend :: date
  nallDay :: bool

definition snap_all_day :: "runtime \<Rightarrow> date \<Rightarrow> date \<times> date" where
  \<comment> \<open>the all-day block: \<open>startLocal = new Date(y, m, d, 0, 0, 0, 0)\<close> from the local
      getters of \<open>start\<close>, and \<open>end = startLocal + 24h\<close>\<close>
  "snap_all_day rt start =
     (let startLocal = newDate_local rt (local_ymd rt start)
      in (startLocal, plus_ms startLocal (24 * 60 * 60 * 1000)))"

definition raw_start :: "runtime \<Rightarrow> norm_args \<Rightarrow> date" where
  \<comment> \<open>\<open>start\<close> after the fallbacks: the parse, else \<open>new Date(args.startTime)\<close> for a
      truthy raw value (a date object even when invalid), else the re-parse of a bare
      date, else the current instant\<close>
  "raw_start rt args =
     (let start0 = parseModelDateTimeLocal rt (startTime args);
          start1 = (if start0 = None \<and> truthy (startTime args)
                    then Some (newDate_str rt (the (startTime args))) else start0);
          start2 = (if start1 = None \<and> startTime args \<noteq> None \<and> re_date_only (the (startTime args))
                    then (case parseModelDateTimeLocal rt (startTime args) of
                            Some s \<Rightarrow> Some s | None \<Rightarrow> start1)
                    else start1)
      in case start2 of None \<Rightarrow> newDate_now rt | Some s \<Rightarrow> s)"

definition raw_end :: "runtime \<Rightarrow> norm_args \<Rightarrow> date \<Rightarrow> date" where
  \<comment> \<open>\<open>end\<close> after the fallbacks, given the \<open>start\<close> reached\<close>
  "raw_end rt args start =
     (let end0 = parseModelDateTimeLocal rt (endTime args);
          end1 = (if end0 = None \<and> truthy (endTime args)
                  then Some (newDate_str rt (the (endTime args))) else end0)
      in case end1 of None \<Rightarrow> plus_ms start (60 * 60 * 1000) | Some e \<Rightarrow> e)"

definition ensure_end_after :: "date \<Rightarrow> date \<Rightarrow> date" where
  \<comment> \<open>\<open>if (end <= start) end = new Date(start.getTime() + 60 * 60 * 1000)\<close>\<close>
  "ensure_end_after start end = (if date_le end start then plus_ms start (60 * 60 * 1000) else end)"

definition normalizeEventTimesFromText :: "runtime \<Rightarrow> norm_args \<Rightarrow> norm_result" where
  "normalizeEventTimesFromText rt args =
     (let ad = (allDay args = Some True);
          start = raw_start rt args;
          end = raw_end rt args start;
          (start', end') = (if ad then snap_all_day rt start else (start, end))
      in \<lparr>nstart = start', nend = ensure_end_after start' end', nallDay = ad\<rparr>)"

section \<open>The date and time embedded in a description\<close>

text \<open>
  The patterns are searched from the left; \<open>first_match\<close> tries a matcher at every
  position of the text in turn. None of the patterns below can match at one position in
  two ways, so each matcher returns the one match there is.
\<close>

fun first_match :: "(jstring \<Rightarrow> 'a option) \<Rightarrow> jstring \<Rightarrow> 'a option" where
  "first_match f [] = f []"
| "first_match f (c # cs) = (case f (c # cs) of Some r \<Rightarrow> Some r | None \<Rightarrow> first_match f cs)"

fun first_match_b :: "(bool \<Rightarrow> jstring \<Rightarrow> 'a option) \<Rightarrow> bool \<Rightarrow> jstring \<Rightarrow> 'a option" where
  \<comment> \<open>as \<open>first_match\<close>, telling the matcher whether a word character stands before\<close>
  "first_match_b f w [] = f w []"
| "first_match_b f w (c # cs) =
     (case f w (c # cs) of Some r \<Rightarrow> Some r | None \<Rightarrow> first_match_b f (is_word c) cs)"

definition strip_prefix :: "jstring \<Rightarrow> jstring \<Rightarrow> jstring option" where
  "strip_prefix p s = (if take (length p) s = p then Some (drop (length p) s) else None)"

definition lit :: "jstring \<Rightarrow> jstring \<Rightarrow> jstring option" where
  \<comment> \<open>a literal at the head of the string\<close>
  "lit = strip_prefix"

definition digits12 :: "jstring \<Rightarrow> (int \<times> jstring) option" where
  \<comment> \<open>\<open>(\d{1,2})\<close>, greedy, with its value under \<open>parseInt\<close>\<close>
  "digits12 s =
     (let ds = takeWhile is_digit (take 2 s)
      in if ds = [] then None else Some (digits_val ds, drop (length ds) s))"

definition opt_colon :: "jstring \<Rightarrow> jstring" where
  \<comment> \<open>\<open>[::]?\<close> with both colons\<close>
  "opt_colon s = (case s of [] \<Rightarrow> [] | c # r \<Rightarrow> if is_colon c then r else s)"

definition req_colon :: "jstring \<Rightarrow> jstring option" where
  "req_colon s = (case s of [] \<Rightarrow> None | c # r \<Rightarrow> if is_colon c then Some r else None)"

definition L_xingcheng_riqi :: jstring where
  "L_xingcheng_riqi = [34892, 31243, 26085, 26399]"

definition L_riqi :: jstring where
  "L_riqi = [26085, 26399]"

definition L_xingcheng_shijian :: jstring where
  "L_xingcheng_shijian = [34892, 31243, 26178, 38291]"

definition L_shijian :: jstring where
  "L_shijian = [26178, 38291]"

definition ymd_body :: "jstring \<Rightarrow> (int \<times> int \<times> int) option" where
  \<comment> \<open>\<open>(\d{4})Y(\d{1,2})M(\d{1,2})D\<close> with the characters for year (U+5E74), month
      (U+6708) and day (U+65E5)\<close>
  "ymd_body s =
     (case take_num 4 s of None \<Rightarrow> None
      | Some (y, r1) \<Rightarrow>
     (case lit [24180] r1 of None \<Rightarrow> None
      | Some r2 \<Rightarrow>
     (case digits12 r2 of None \<Rightarrow> None
      | Some (m, r3) \<Rightarrow>
     (case lit [26376] r3 of None \<Rightarrow> None
      | Some r4 \<Rightarrow>
     (case digits12 r4 of None \<Rightarrow> None
      | Some (d, r5) \<Rightarrow>
     (case lit [26085] r5 of None \<Rightarrow> None
      | Some r6 \<Rightarrow> Some (y, m, d)))))))"

definition hm_body :: "jstring \<Rightarrow> ((int \<times> int) \<times> jstring) option" where
  \<comment> \<open>\<open>([0-2]?\d:[0-5]\d)\<close>, split at the colon and read by \<open>parseInt\<close>; the rest of
      the text is returned for the word boundary that may follow\<close>
  "hm_body s =
     (case s of
        a # b # c # d # e # r \<Rightarrow>
          if 48 \<le> a \<and> a \<le> 50 \<and> is_digit b \<and> c = 58 \<and> 48 \<le> d \<and> d \<le> 53 \<and> is_digit e
          then Some ((digits_val [a, b], digits_val [d, e]), r)
          else if is_digit a \<and> b = 58 \<and> 48 \<le> c \<and> c \<le> 53 \<and> is_digit d
          then Some ((digits_val [a], digits_val [c, d]), e # r)
          else None
      | [a, b, c, d] \<Rightarrow>
          if is_digit a \<and> b = 58 \<and> 48 \<le> c \<and> c \<le> 53 \<and> is_digit d
          then Some ((digits_val [a], digits_val [c, d]), [])
          else None
      | _ \<Rightarrow> None)"

definition re_date_labelled :: "jstring \<Rightarrow> (int \<times> int \<times> int) option" where
  \<comment> \<open>first date pattern of \<open>parseTransportDateTimeV2\<close>: either label, an optional colon,
      white space, then the date\<close>
  "re_date_labelled =
     first_match (\<lambda>s.
       case (case lit L_xingcheng_riqi s of Some r \<Rightarrow> Some r | None \<Rightarrow> lit L_riqi s) of
         None \<Rightarrow> None
       | Some r \<Rightarrow> ymd_body (dropWhile is_space (opt_colon r)))"

definition re_date_bare :: "jstring \<Rightarrow> (int \<times> int \<times> int) option" where
  \<comment> \<open>second date pattern: the date anywhere\<close>
  "re_date_bare = first_match ymd_body"

definition re_time_labelled :: "jstring \<Rightarrow> (int \<times> int) option" where
  \<comment> \<open>first time pattern: either label, an optional colon, white space, then the time\<close>
  "re_time_labelled =
     first_match (\<lambda>s.
       case (case lit L_xingcheng_shijian s of Some r \<Rightarrow> Some r | None \<Rightarrow> lit L_shijian s) of
         None \<Rightarrow> None
       | Some r \<Rightarrow> map_option fst (hm_body (dropWhile is_space (opt_colon r))))"

definition re_time_bare :: "jstring \<Rightarrow> (int \<times> int) option" where
  \<comment> \<open>second time pattern \<open>\b([0-2]?\d:[0-5]\d)\b\<close>: the time between two word
      boundaries; it starts and ends with a digit, so no word character may stand on
      either side\<close>
  "re_time_bare =
     first_match_b (\<lambda>w s.
       if w then None
       else case hm_body s of
              None \<Rightarrow> None
            | Some (hm, r) \<Rightarrow> (case r of [] \<Rightarrow> Some hm | c # _ \<Rightarrow> if is_word c then None else Some hm))
       False"

function dec_str :: "int \<Rightarrow> jstring" where
  \<comment> \<open>\<open>n.toString()\<close> of a whole number that is not negative\<close>
  "dec_str n = (if n < 10 then [48 + n] else dec_str (n div 10) @ [48 + n mod 10])"
  by pat_completeness auto
termination
  by (relation "measure nat") auto

definition padStart :: "nat \<Rightarrow> jstring \<Rightarrow> jstring" where
  \<comment> \<open>\<open>s.padStart(k, "0")\<close>\<close>
  "padStart k s = replicate (k - length s) 48 @ s"

definition parseTransportDateTimeV2 :: "runtime \<Rightarrow> jstring \<Rightarrow> date option" where
  "parseTransportDateTimeV2 rt text =
     (if text = [] then None
      else
        (let ymd = (case re_date_labelled text of Some r \<Rightarrow> Some r | None \<Rightarrow> re_date_bare text);
             hm = (case re_time_labelled text of Some r \<Rightarrow> Some r | None \<Rightarrow> re_time_bare text)
         in case (ymd, hm) of
              (Some (y, mth, d), Some (hh, mm)) \<Rightarrow>
                (let m = mth - 1;
                     isoStr = padStart 4 (dec_str y) @ asc ''-'' @ padStart 2 (dec_str (m + 1))
                           @ asc ''-'' @ padStart 2 (dec_str d) @ asc ''T'' @ padStart 2 (dec_str hh)
                           @ asc '':'' @ padStart 2 (dec_str mm) @ asc '':00+08:00''
                 in valid_or_null (newDate_str rt isoStr))
            | _ \<Rightarrow> None))"

definition re_date_legacy :: "jstring \<Rightarrow> (int \<times> int \<times> int) option" where
  \<comment> \<open>the date pattern of \<open>parseTransportDateTime\<close>: the long label, a colon, white
      space, the date\<close>
  "re_date_legacy =
     first_match (\<lambda>s.
       case lit L_xingcheng_riqi s of None \<Rightarrow> None
       | Some r \<Rightarrow> (case req_colon r of None \<Rightarrow> None
                    | Some r' \<Rightarrow> ymd_body (dropWhile is_space r')))"

definition re_time_legacy :: "jstring \<Rightarrow> (int \<times> int) option" where
  "re_time_legacy =
     first_match (\<lambda>s.
       case lit L_xingcheng_shijian s of None \<Rightarrow> None
       | Some r \<Rightarrow> (case req_colon r of None \<Rightarrow> None
                    | Some r' \<Rightarrow> map_option fst (hm_body (dropWhile is_space r'))))"

definition parseTransportDateTime :: "jstring \<Rightarrow> date option" where
  \<comment> \<open>the server's older parser (functions/src/index.ts); the date is built with
      \<open>Date.UTC(y, m, d, hh - 8, mm, 0)\<close>, and an invalid date object is still an object\<close>
  "parseTransportDateTime text =
     (if text = [] then None
      else case (re_date_legacy text, re_time_legacy text) of
             (Some (y, mth, d), Some (hh, mm)) \<Rightarrow>
               Some (date_UTC y (mth - 1) d (hh - 8) mm 0)
           | _ \<Rightarrow> None)"

definition transport_override :: "runtime \<Rightarrow> jstring option \<Rightarrow> date option" where
  \<comment> \<open>\<open>parseTransportDateTimeV2(desc || '') || parseTransportDateTime(desc || '')\<close>\<close>
  "transport_override rt desc =
     (case parseTransportDateTimeV2 rt (or_empty desc) of
        Some d \<Rightarrow> Some d
      | None \<Rightarrow> parseTransportDateTime (or_empty desc))"

section \<open>The assistant's handlers\<close>

text \<open>
  The arguments of a tool call arrive as JSON: strings and a boolean, each of which may be
  absent (\<open>None\<close>). The handlers are modelled up to the value they hand to the store.
\<close>

record tool_args =
  a_title :: "jstring option"
  a_startTime :: "jstring option"
  a_endTime :: "jstring option"
  a_description :: "jstring option"
  a_location :: "jstring option"
  a_allDay :: "bool option"

record new_event =
  e_title :: "jstring option"
  e_startTime :: date
  e_endTime :: date
  e_description :: jstring
  e_location :: jstring
  e_allDay :: bool

definition norm_of :: "tool_args \<Rightarrow> norm_args" where
  "norm_of a = \<lparr>startTime = a_startTime a, endTime = a_endTime a, allDay = a_allDay a\<rparr>"

definition client_create :: "runtime \<Rightarrow> tool_args \<Rightarrow> new_event" where
  \<comment> \<open>\<open>handleSubmit\<close>, branch \<open>createCalendarEvent\<close> (AiAssistantModal): the event given to
      \<open>onAddEvent\<close>\<close>
  "client_create rt a =
     (let norm = normalizeEventTimesFromText rt (norm_of a)
      in \<lparr>e_title = Some (if truthy (a_title a) then the (a_title a) else asc ''New Event''),
          e_startTime = nstart norm,
          e_endTime = nend norm,
          e_description = or_empty (a_description a),
          e_location = or_empty (a_location a),
          e_allDay = nallDay norm\<rparr>)"

definition apply_override :: "runtime \<Rightarrow> jstring option \<Rightarrow> norm_result \<Rightarrow> norm_result" where
  \<comment> \<open>\<open>if (dt) __norm = { start: dt, end: dt + 1h, allDay: false }\<close>\<close>
  "apply_override rt desc norm =
     (case transport_override rt desc of
        None \<Rightarrow> norm
      | Some dt \<Rightarrow> \<lparr>nstart = dt, nend = plus_ms dt (60 * 60 * 1000), nallDay = False\<rparr>)"

definition resnap :: "runtime \<Rightarrow> bool \<Rightarrow> norm_result \<Rightarrow> norm_result" where
  \<comment> \<open>the block "Ensure all-day events use local midnight boundaries"\<close>
  "resnap rt requested norm =
     (if requested
      then (case snap_all_day rt (nstart norm) of
              (s, e) \<Rightarrow> \<lparr>nstart = s, nend = e, nallDay = True\<rparr>)
      else norm)"

definition server_create :: "runtime \<Rightarrow> tool_args \<Rightarrow> new_event" where
  \<comment> \<open>\<open>handleEvent\<close>, branch \<open>createCalendarEvent\<close> (LINE webhook): the document given to
      \<open>db.collection('events').add\<close>\<close>
  "server_create rt a =
     (let norm0 = normalizeEventTimesFromText rt (norm_of a);
          norm1 = apply_override rt (a_description a) norm0;
          norm2 = resnap rt (a_allDay a = Some True) norm1
      in \<lparr>e_title = a_title a,
          e_startTime = nstart norm2,
          e_endTime = nend norm2,
          e_description = or_empty (a_description a),
          e_location = or_empty (a_location a),
          e_allDay = (a_allDay a = Some True)\<rparr>)"

subsection \<open>Updates\<close>

text \<open>
  A stored event and an update are both partial documents: a field is present or not. A time
  field of an update holds a date once the handler has converted it, and the string of the
  payload otherwise.
\<close>

datatype tval = TDate date | TStr jstring

record doc =
  f_title :: "jstring option"
  f_startTime :: "tval option"
  f_endTime :: "tval option"
  f_description :: "jstring option"
  f_location :: "jstring option"
  f_allDay :: "bool option"

definition time_guard :: "tool_args \<Rightarrow> bool" where
  \<comment> \<open>\<open>parsedUpdates.startTime || parsedUpdates.endTime || parsedUpdates.allDay !== undefined\<close>\<close>
  "time_guard u = (truthy (a_startTime u) \<or> truthy (a_endTime u) \<or> a_allDay u \<noteq> None)"

definition update_norm_args :: "tool_args \<Rightarrow> norm_args" where
  \<comment> \<open>\<open>allDay: parsedUpdates.allDay ?? updates.allDay ?? false\<close>\<close>
  "update_norm_args u =
     \<lparr>startTime = a_startTime u, endTime = a_endTime u,
      allDay = Some (case a_allDay u of None \<Rightarrow> False | Some b \<Rightarrow> b)\<rparr>"

definition server_update :: "runtime \<Rightarrow> tool_args \<Rightarrow> doc" where
  \<comment> \<open>\<open>handleEvent\<close>, branch \<open>updateCalendarEvent\<close>: the map given to
      \<open>db.collection('events').doc(id).update\<close>\<close>
  "server_update rt u =
     (let base = \<lparr>f_title = a_title u,
                  f_startTime = map_option TStr (a_startTime u),
                  f_endTime = map_option TStr (a_endTime u),
                  f_description = a_description u,
                  f_location = a_location u,
                  f_allDay = a_allDay u\<rparr>
      in if time_guard u
         then (let norm0 = normalizeEventTimesFromText rt (update_norm_args u);
                   norm1 = apply_override rt (a_description u) norm0;
                   norm2 = resnap rt (a_allDay u = Some True) norm1
               in base\<lparr>f_startTime := Some (TDate (nstart norm2)),
                       f_endTime := Some (TDate (nend norm2)),
                       f_allDay := Some (nallDay norm2)\<rparr>)
         else base\<lparr>f_startTime := (if truthy (a_startTime u)
                                     then Some (TDate (newDate_str rt (the (a_startTime u))))
                                     else f_startTime base),
                   f_endTime := (if truthy (a_endTime u)
                                   then Some (TDate (newDate_str rt (the (a_endTime u))))
                                   else f_endTime base)\<rparr>)"

fun replace_first :: "int \<Rightarrow> int \<Rightarrow> jstring \<Rightarrow> jstring" where
  \<comment> \<open>\<open>s.replace(a, b)\<close> with one-character strings: the first occurrence only\<close>
  "replace_first a b [] = []"
| "replace_first a b (c # cs) = (if c = a then b # cs else c # replace_first a b cs)"

definition safeParseDate :: "runtime \<Rightarrow> jstring \<Rightarrow> date" where
  "safeParseDate rt dateStr =
     (if dateStr = [] then newDate_now rt
      else (let safeStr = (if 32 \<in> set dateStr \<and> 84 \<notin> set dateStr
                           then replace_first 32 84 dateStr else dateStr);
                d = newDate_str rt safeStr
            in case d of InvalidDate \<Rightarrow> newDate_now rt | Instant t \<Rightarrow> d))"

definition client_update :: "runtime \<Rightarrow> tool_args \<Rightarrow> doc" where
  \<comment> \<open>\<open>handleSubmit\<close>, branch \<open>updateCalendarEvent\<close>: the updates given to \<open>onUpdateEvent\<close>\<close>
  "client_update rt u =
     (let base = \<lparr>f_title = a_title u,
                  f_startTime = map_option TStr (a_startTime u),
                  f_endTime = map_option TStr (a_endTime u),
                  f_description = a_description u,
                  f_location = a_location u,
                  f_allDay = a_allDay u\<rparr>;
          conv = (\<lambda>v. case parseModelDateTimeLocal rt v of
                         Some d \<Rightarrow> d | None \<Rightarrow> safeParseDate rt (the v))
      in if time_guard u
         then (let normU = normalizeEventTimesFromText rt (update_norm_args u)
               in base\<lparr>f_startTime := Some (TDate (nstart normU)),
                       f_endTime := Some (TDate (nend normU)),
                       f_allDay := Some (nallDay normU)\<rparr>)
         else base\<lparr>f_startTime := (if truthy (a_startTime u)
                                     then Some (TDate (conv (a_startTime u)))
                                     else f_startTime base),
                   f_endTime := (if truthy (a_endTime u)
                                   then Some (TDate (conv (a_endTime u)))
                                   else f_endTime base)\<rparr>)"

definition merge_field :: "'a option \<Rightarrow> 'a option \<Rightarrow> 'a option" where
  "merge_field old new = (case new of None \<Rightarrow> old | Some v \<Rightarrow> Some v)"

definition apply_update :: "doc \<Rightarrow> doc \<Rightarrow> doc" where
  \<comment> \<open>the store's \<open>update\<close>: the fields present in the update replace the stored ones, the
      others stay\<close>
  "apply_update stored upd =
     \<lparr>f_title = merge_field (f_title stored) (f_title upd),
      f_startTime = merge_field (f_startTime stored) (f_startTime upd),
      f_endTime = merge_field (f_endTime stored) (f_endTime upd),
      f_description = merge_field (f_description stored) (f_description upd),
      f_location = merge_field (f_location stored) (f_location upd),
      f_allDay = merge_field (f_allDay stored) (f_allDay upd)\<rparr>"

section \<open>The flight correlator (functions/src/index.ts)\<close>

record airport =
  code :: "jstring option"
  code_iata :: "jstring option"
  code_icao :: "jstring option"
  code_lid :: "jstring option"
  ap_name :: "jstring option"
  ap_city :: "jstring option"
  ap_timezone :: "jstring option"

record flight =
  ident :: jstring
  ident_iata :: "jstring option"
  ident_icao :: "jstring option"
  fl_status :: "jstring option"
  fl_origin :: "airport option"
  fl_destination :: "airport option"
  scheduled_out :: "jstring option"
  estimated_out :: "jstring option"
  actual_out :: "jstring option"
  scheduled_off :: "jstring option"
  estimated_off :: "jstring option"
  actual_off :: "jstring option"
  scheduled_on :: "jstring option"
  estimated_on :: "jstring option"
  actual_on :: "jstring option"
  scheduled_in :: "jstring option"
  estimated_in :: "jstring option"
  actual_in :: "jstring option"
  arrival_delay :: "int option"

definition TAIWAN_AIRPORT_CODES :: "jstring set" where
  "TAIWAN_AIRPORT_CODES = set (map asc
     [''TPE'', ''TSA'', ''KHH'', ''RMQ'', ''TTT'', ''HUN'', ''KNH'', ''MZG'', ''LZN'', ''GNI'',
      ''MFK'', ''KYD'', ''CYI'', ''TNN'', ''PIF'', ''RCTP'', ''RCSS'', ''RCKH'', ''RCMQ'',
      ''RCNN'', ''RCYU'', ''RCFN'', ''RCQC'', ''RCBS'', ''RCMT'', ''RCFG'', ''RCGI'', ''RCLY''])"

definition upper_ascii :: "jstring \<Rightarrow> jstring" where
  \<comment> \<open>\<open>toUpperCase\<close> on ASCII text, which airport codes are\<close>
  "upper_ascii s = map (\<lambda>c. if 97 \<le> c \<and> c \<le> 122 then c - 32 else c) s"

definition isTaiwanAirport :: "jstring option \<Rightarrow> bool" where
  "isTaiwanAirport c = (truthy c \<and> upper_ascii (the c) \<in> TAIWAN_AIRPORT_CODES)"

fun pickFirstNonNull :: "jstring option list \<Rightarrow> jstring option" where
  "pickFirstNonNull [] = None"
| "pickFirstNonNull (v # vs) =
     (case v of None \<Rightarrow> pickFirstNonNull vs
      | Some s \<Rightarrow> if s \<noteq> [] then Some s else pickFirstNonNull vs)"

definition parseDate :: "runtime \<Rightarrow> jstring option \<Rightarrow> date option" where
  "parseDate rt s = (if \<not> truthy s then None else valid_or_null (newDate_str rt (the s)))"

definition formatDateKey :: "int \<Rightarrow> int \<times> int \<times> int" where
  \<comment> \<open>the date key of an instant in the zone Asia/Taipei, a fixed UTC+8: the text
      \<open>YYYY-MM-DD\<close> of the source is kept as the triple it prints\<close>
  "formatDateKey t =
     (case civil_from_days ((t + 8 * msPerHour) div msPerDay) of (y, m, d) \<Rightarrow> (y, m + 1, d))"

definition isoStringToDateKey :: "runtime \<Rightarrow> jstring option \<Rightarrow> (int \<times> int \<times> int) option" where
  "isoStringToDateKey rt s =
     (case parseDate rt s of
        Some (Instant t) \<Rightarrow> Some (formatDateKey t)
      | _ \<Rightarrow> None)"

definition isTaiwanArrival :: "flight \<Rightarrow> bool" where
  "isTaiwanArrival f =
     (case fl_destination f of
        None \<Rightarrow> False
      | Some dest \<Rightarrow> isTaiwanAirport (code dest) \<or> isTaiwanAirport (code_iata dest) \<or>
                     isTaiwanAirport (code_icao dest) \<or> isTaiwanAirport (code_lid dest))"

definition arrivalIso :: "flight \<Rightarrow> jstring option" where
  \<comment> \<open>the arrival text of \<open>queryFlightAwareStatus\<close>, and \<open>estArr\<close> of \<open>mapFlightToStatus\<close>\<close>
  "arrivalIso f =
     pickFirstNonNull [actual_in f, estimated_in f, actual_on f, estimated_on f,
                       scheduled_in f, scheduled_on f]"

definition departureIso :: "flight \<Rightarrow> jstring option" where
  \<comment> \<open>\<open>estDep\<close> of \<open>mapFlightToStatus\<close>\<close>
  "departureIso f =
     pickFirstNonNull [actual_out f, estimated_out f, actual_off f, estimated_off f,
                       scheduled_out f, scheduled_off f]"

definition computeDurationMinutes :: "runtime \<Rightarrow> jstring option \<Rightarrow> jstring option \<Rightarrow> int option" where
  \<comment> \<open>\<open>Math.round\<close> of a quotient by 60000 rounds halves up\<close>
  "computeDurationMinutes rt depIso arrIso =
     (case (parseDate rt depIso, parseDate rt arrIso) of
        (Some (Instant dep), Some (Instant arr)) \<Rightarrow>
          (let diff = (arr - dep + 30000) div 60000 in if diff > 0 then Some diff else None)
      | _ \<Rightarrow> None)"

record endpoint_info =
  ep_code :: "jstring option"
  ep_alternateCode :: "jstring option"
  ep_airportName :: "jstring option"
  ep_city :: "jstring option"
  ep_timezone :: "jstring option"

definition first_truthy :: "jstring option list \<Rightarrow> jstring option" where
  \<comment> \<open>\<open>a || b || c || null\<close>\<close>
  "first_truthy vs = pickFirstNonNull vs"

definition toEndpointInfo :: "airport option \<Rightarrow> endpoint_info" where
  "toEndpointInfo ap =
     (case ap of
        None \<Rightarrow> \<lparr>ep_code = None, ep_alternateCode = None, ep_airportName = None, ep_city = None,
                 ep_timezone = None\<rparr>
      | Some a \<Rightarrow>
          \<lparr>ep_code = first_truthy [code a, code_iata a, code_icao a],
           ep_alternateCode = first_truthy [code_iata a, code_icao a, code_lid a],
           ep_airportName = ap_name a,
           ep_city = ap_city a,
           ep_timezone = ap_timezone a\<rparr>)"

record flight_status =
  p_ident :: jstring
  p_flightNumber :: jstring
  p_status :: "jstring option"
  p_origin :: endpoint_info
  p_destination :: endpoint_info
  p_scheduledDeparture :: "jstring option"
  p_estimatedDeparture :: "jstring option"
  p_scheduledArrival :: "jstring option"
  p_estimatedArrival :: "jstring option"
  p_actualArrival :: "jstring option"
  p_durationMinutes :: "int option"
  p_arrivalDelayMinutes :: "int option"

definition mapFlightToStatus :: "runtime \<Rightarrow> flight \<Rightarrow> flight_status" where
  \<comment> \<open>the fields copied through unchanged (operator, gates, terminals, baggage), the
      tracking URL and the time of the query are left out\<close>
  "mapFlightToStatus rt f =
     \<lparr>p_ident = ident f,
      p_flightNumber = (if truthy (ident_iata f) then the (ident_iata f)
                        else if truthy (ident_icao f) then the (ident_icao f) else ident f),
      p_status = fl_status f,
      p_origin = toEndpointInfo (fl_origin f),
      p_destination = toEndpointInfo (fl_destination f),
      p_scheduledDeparture = pickFirstNonNull [scheduled_out f, scheduled_off f],
      p_estimatedDeparture = departureIso f,
      p_scheduledArrival = pickFirstNonNull [scheduled_in f, scheduled_on f],
      p_estimatedArrival = arrivalIso f,
      p_actualArrival = pickFirstNonNull [actual_in f, actual_on f],
      p_durationMinutes = computeDurationMinutes rt (departureIso f) (arrivalIso f),
      p_arrivalDelayMinutes = map_option (\<lambda>x. (x + 30) div 60) (arrival_delay f)\<rparr>"

text \<open>The object \<open>{ flight, key, ts }\<close> built for each candidate is a triple.\<close>

type_synonym match_item = "flight \<times> (int \<times> int \<times> int) option \<times> int option"

definition m_flight :: "match_item \<Rightarrow> flight" where
  "m_flight it = fst it"

definition m_key :: "match_item \<Rightarrow> (int \<times> int \<times> int) option" where
  "m_key it = fst (snd it)"

definition m_ts :: "match_item \<Rightarrow> int option" where
  "m_ts it = snd (snd it)"

definition to_item :: "runtime \<Rightarrow> flight \<Rightarrow> match_item" where
  "to_item rt f =
     (f,
      isoStringToDateKey rt (arrivalIso f),
      (case parseDate rt (arrivalIso f) of Some d \<Rightarrow> getTime d | None \<Rightarrow> None))"

definition MAX_SAFE_INTEGER :: int where
  "MAX_SAFE_INTEGER = 9007199254740991"

definition item_diff :: "int \<Rightarrow> match_item \<Rightarrow> int" where
  \<comment> \<open>\<open>ts == null ? Number.MAX_SAFE_INTEGER : Math.abs(ts - eventDate.getTime())\<close>\<close>
  "item_diff eventDate it = (case m_ts it of None \<Rightarrow> MAX_SAFE_INTEGER | Some ts \<Rightarrow> \<bar>ts - eventDate\<bar>)"

definition flight_matches :: "runtime \<Rightarrow> flight list \<Rightarrow> int \<Rightarrow> match_item list" where
  \<comment> \<open>\<open>flights.filter(isTaiwanArrival).map(...).filter(item => item.key === targetKey)\<close>\<close>
  "flight_matches rt flights eventDate =
     filter (\<lambda>it. m_key it = Some (formatDateKey eventDate))
            (map (to_item rt) (filter isTaiwanArrival flights))"

definition queryFlightAwareStatus :: "runtime \<Rightarrow> flight list \<Rightarrow> int \<Rightarrow> flight_status option" where
  \<comment> \<open>from the provider's reply \<open>flights\<close> on, for a valid \<open>eventDate\<close> (the HTTP handler
      refuses an invalid one); \<open>Array.prototype.sort\<close> is stable, as \<open>sort_key\<close> is\<close>
  "queryFlightAwareStatus rt flights eventDate =
     (if flights = [] then None
      else (let matches = flight_matches rt flights eventDate
            in if matches = [] then None
               else (case sort_key (item_diff eventDate) matches of
                       [] \<Rightarrow> None
                     | m # _ \<Rightarrow> Some (mapFlightToStatus rt (m_flight m)))))"

definition arrival_instant :: "runtime \<Rightarrow> flight \<Rightarrow> int option" where
  \<comment> \<open>the \<open>ts\<close> of a candidate: \<open>parseDate(arrivalIso)?.getTime() ?? null\<close>\<close>
  "arrival_instant rt f = m_ts (to_item rt f)"


definition arrival_by_kind :: "flight \<Rightarrow> jstring option" where
  \<comment> \<open>the order as the specification words it: actual, then estimated, then scheduled,
      and within each kind the "in" value before the "on" value\<close>
  "arrival_by_kind f =
     pickFirstNonNull [actual_in f, actual_on f, estimated_in f, estimated_on f,
                       scheduled_in f, scheduled_on f]"

definition TPE :: airport where
  "TPE = \<lparr>code = Some (asc ''RCTP''), code_iata = Some (asc ''TPE''), code_icao = Some (asc ''RCTP''),
          code_lid = None, ap_name = None, ap_city = Some (asc ''Taipei''),
          ap_timezone = Some (asc ''Asia/Taipei'')\<rparr>"

definition blank_flight :: flight where
  \<comment> \<open>a record for CI123 to Taoyuan with no time filled in\<close>
  "blank_flight =
     \<lparr>ident = asc ''CAL123'', ident_iata = Some (asc ''CI123''), ident_icao = Some (asc ''CAL123''),
      fl_status = None, fl_origin = None, fl_destination = Some TPE,
      scheduled_out = None, estimated_out = None, actual_out = None,
      scheduled_off = None, estimated_off = None, actual_off = None,
      scheduled_on = None, estimated_on = None, actual_on = None,
      scheduled_in = None, estimated_in = None, actual_in = None,
      arrival_delay = None\<rparr>"

definition flight_0950 :: flight where
  "flight_0950 = blank_flight\<lparr>scheduled_in := Some (asc ''2024-08-15T09:50:00Z'')\<rparr>"

definition flight_1400 :: flight where
  "flight_1400 = blank_flight\<lparr>scheduled_in := Some (asc ''2024-08-15T14:00:00Z'')\<rparr>"

definition flight_taxiing :: flight where
  \<comment> \<open>landed (runway time known), gate arrival still an estimate\<close>
  "flight_taxiing =
     blank_flight\<lparr>actual_on := Some (asc ''2024-08-15T09:41:00Z''),
                  estimated_in := Some (asc ''2024-08-15T09:50:00Z'')\<rparr>"

section \<open>The stop lists of the event detail view (EventDetailModal)\<close>

subsection \<open>String operations\<close>

function split_runs :: "(int \<Rightarrow> bool) \<Rightarrow> jstring \<Rightarrow> jstring list" where
  \<comment> \<open>\<open>s.split(/c+/)\<close> for a character class: the pieces between maximal runs of
      separators; the empty string gives one empty piece\<close>
  "split_runs p [] = [[]]"
| "split_runs p (c # cs) =
     (if p c then [] # split_runs p (dropWhile p cs)
      else (case split_runs p cs of [] \<Rightarrow> [[c]] | l # ls \<Rightarrow> (c # l) # ls))"
  by pat_completeness auto
termination
  by (relation "measure (\<lambda>(p, s). length s)") (auto simp: less_Suc_eq_le length_dropWhile_le)

fun split_on :: "(int \<Rightarrow> bool) \<Rightarrow> jstring \<Rightarrow> jstring list" where
  \<comment> \<open>\<open>s.split(/c/)\<close> for a character class: every separator ends a piece\<close>
  "split_on p [] = [[]]"
| "split_on p (c # cs) =
     (if p c then [] # split_on p cs
      else (case split_on p cs of [] \<Rightarrow> [[c]] | l # ls \<Rightarrow> (c # l) # ls))"

definition is_nl :: "int \<Rightarrow> bool" where
  "is_nl c = (c = 10)"

definition desc_lines :: "jstring \<Rightarrow> jstring list" where
  \<comment> \<open>\<open>text.split(/\n+/)\<close>\<close>
  "desc_lines text = split_runs is_nl text"

definition contains :: "jstring \<Rightarrow> jstring \<Rightarrow> bool" where
  \<comment> \<open>the literal \<open>pat\<close> occurs in \<open>s\<close>\<close>
  "contains pat s = (first_match (strip_prefix pat) s \<noteq> None)"

definition lower_ascii :: "jstring \<Rightarrow> jstring" where
  \<comment> \<open>lower case of the ASCII letters; under the flag \<open>i\<close> an ASCII letter of a pattern
      matches its two ASCII cases only, and only ASCII text lowers to \<open>search\<close>\<close>
  "lower_ascii s = map (\<lambda>c. if 65 \<le> c \<and> c \<le> 90 then c + 32 else c) s"

fun after_label :: "jstring \<Rightarrow> jstring \<Rightarrow> jstring option" where
  \<comment> \<open>\<open>^.*?LABEL\<close>: the text after the first occurrence of the label, if no line
      terminator stands before it\<close>
  "after_label lab [] = strip_prefix lab []"
| "after_label lab (c # cs) =
     (case strip_prefix lab (c # cs) of
        Some r \<Rightarrow> Some r
      | None \<Rightarrow> if is_line_term c then None else after_label lab cs)"

definition strip_label :: "jstring \<Rightarrow> jstring \<Rightarrow> jstring" where
  \<comment> \<open>\<open>rawLine.replace(/^.*?LABEL[::]?\s*/, '')\<close> with both colons\<close>
  "strip_label lab rawLine =
     (case after_label lab rawLine of
        None \<Rightarrow> rawLine
      | Some r \<Rightarrow> dropWhile is_space (opt_colon r))"

definition md_at :: "jstring \<Rightarrow> (jstring \<times> jstring) option" where
  \<comment> \<open>\<open>\[([^\]]+)\]\(([^\)]+)\)\<close> at the head of the string: the label and the text after
      the link\<close>
  "md_at s =
     (case s of
        [] \<Rightarrow> None
      | c # r \<Rightarrow>
          if c \<noteq> 91 then None
          else (let g1 = takeWhile (\<lambda>x. x \<noteq> 93) r in
                if g1 = [] then None
                else (case dropWhile (\<lambda>x. x \<noteq> 93) r of
                        b # c2 # r2 \<Rightarrow>
                          if c2 \<noteq> 40 then None
                          else (let g2 = takeWhile (\<lambda>x. x \<noteq> 41) r2 in
                                if g2 = [] then None
                                else (case dropWhile (\<lambda>x. x \<noteq> 41) r2 of
                                        [] \<Rightarrow> None
                                      | p # r4 \<Rightarrow> Some (g1, r4)))
                      | _ \<Rightarrow> None)))"

lemma md_at_shorter: "md_at s = Some (g, rest) \<Longrightarrow> length rest < length s"
proof -
  assume a: "md_at s = Some (g, rest)"
  then obtain c r where s: "s = c # r" by (cases s) (auto simp: md_at_def)
  have l1: "length (dropWhile (\<lambda>x. x \<noteq> 93) r) \<le> length r" by (rule length_dropWhile_le)
  from a s obtain b r2 where d1: "dropWhile (\<lambda>x. x \<noteq> 93) r = b # 40 # r2"
    by (auto simp: md_at_def Let_def split: if_splits list.splits)
  have l2: "length (dropWhile (\<lambda>x. x \<noteq> 41) r2) \<le> length r2" by (rule length_dropWhile_le)
  from a s d1 obtain p where d2: "dropWhile (\<lambda>x. x \<noteq> 41) r2 = p # rest"
    by (auto simp: md_at_def Let_def split: if_splits list.splits)
  show ?thesis using s l1 l2 d1 d2 by simp
qed

function md_labels :: "jstring \<Rightarrow> jstring list" where
  \<comment> \<open>\<open>[...s.matchAll(/\[([^\]]+)\]\(([^\)]+)\)/g)].map(m => m[1])\<close>: the labels of the
      links, from the left, each search starting where the last link ended\<close>
  "md_labels [] = []"
| "md_labels (c # cs) =
     (case md_at (c # cs) of
        Some (g, rest) \<Rightarrow> g # md_labels rest
      | None \<Rightarrow> md_labels cs)"
  by pat_completeness auto
termination
  by (relation "measure length") (auto dest: md_at_shorter)

fun uniq :: "'a list \<Rightarrow> 'a list" where
  \<comment> \<open>\<open>[...new Set(xs)]\<close>: each value once, in the order of first occurrence\<close>
  "uniq [] = []"
| "uniq (x # xs) = x # removeAll x (uniq xs)"

subsection \<open>Pickup and drop-off addresses\<close>

definition L_pickup :: jstring where
  "L_pickup = [19978, 36554, 22320, 22336]"

definition L_dropoff :: jstring where
  "L_dropoff = [19979, 36554, 22320, 22336]"

definition is_addr_delim :: "int \<Rightarrow> bool" where
  \<comment> \<open>the separators of an address body: ideographic comma, full-width comma, comma,
      full-width semicolon, semicolon\<close>
  "is_addr_delim c = (c = 12289 \<or> c = 65292 \<or> c = 44 \<or> c = 65307 \<or> c = 59)"

definition starts_http :: "jstring \<Rightarrow> bool" where
  \<comment> \<open>\<open>/^https?:/i\<close>\<close>
  "starts_http s =
     (case strip_prefix (asc ''http'') (lower_ascii s) of
        None \<Rightarrow> False
      | Some r \<Rightarrow> take 1 r = asc '':'' \<or> take 2 r = asc ''s:'')"

definition starts_www :: "jstring \<Rightarrow> bool" where
  \<comment> \<open>\<open>/^www\./i\<close>\<close>
  "starts_www s = (strip_prefix (asc ''www.'') (lower_ascii s) \<noteq> None)"

definition has_maps_query :: "jstring \<Rightarrow> bool" where
  \<comment> \<open>\<open>/api=1&query=/i\<close>\<close>
  "has_maps_query s = contains (asc ''api=1&query='') (lower_ascii s)"

definition is_noise :: "jstring \<Rightarrow> bool" where
  "is_noise s = (starts_http s \<or> starts_www s \<or> lower_ascii s = asc ''search'' \<or> has_maps_query s)"

definition line_items :: "jstring \<Rightarrow> jstring \<Rightarrow> jstring list" where
  \<comment> \<open>what one labelled line pushes to \<open>items\<close>: the labels of its links, or else the
      pieces of its body\<close>
  "line_items lab rawLine =
     (let body = trim (strip_label lab rawLine);
          mdMatches = md_labels body
      in if mdMatches \<noteq> [] then map trim mdMatches
         else filter (\<lambda>x. x \<noteq> []) (map trim (split_on is_addr_delim body)))"

definition labelled_items :: "jstring \<Rightarrow> jstring option \<Rightarrow> jstring list" where
  \<comment> \<open>\<open>cleaned\<close>: the items of all the lines that contain the label, without the noise\<close>
  "labelled_items lab description =
     filter (\<lambda>x. \<not> is_noise x)
       (concat (map (line_items lab) (filter (contains lab) (desc_lines (or_empty description)))))"

definition labelled_addresses :: "jstring \<Rightarrow> jstring option \<Rightarrow> jstring list" where
  \<comment> \<open>the body shared by \<open>pickupAddresses\<close> and \<open>dropoffAddresses\<close>, which differ in the
      label only\<close>
  "labelled_addresses lab description =
     (if filter (contains lab) (desc_lines (or_empty description)) = [] then []
      else take 3 (uniq (labelled_items lab description)))"

definition pickupAddresses :: "jstring option \<Rightarrow> jstring list" where
  "pickupAddresses description = labelled_addresses L_pickup description"

definition dropoffAddresses :: "jstring option \<Rightarrow> jstring list" where
  "dropoffAddresses description = labelled_addresses L_dropoff description"

subsection \<open>Intermediate stops\<close>

definition addr_suffixes :: "jstring list" where
  \<comment> \<open>the fifteen address endings of \<open>looksLikeAddress\<close>, in the order of the source\<close>
  "addr_suffixes =
     [[36335], [34903], [22823, 36947], [27573], [24055], [24324], [34399], [27155], [39208],
      [31449], [27231, 22580], [33322, 24264], [37324], [31038, 21312], [22290, 21312]]"

definition is_cjk_or_digit :: "int \<Rightarrow> bool" where
  \<comment> \<open>the class of the ideographs U+4E00 to U+9FA5 and the digits\<close>
  "is_cjk_or_digit c = ((19968 \<le> c \<and> c \<le> 40869) \<or> is_digit c)"

definition starts_with_any :: "jstring list \<Rightarrow> jstring \<Rightarrow> bool" where
  "starts_with_any pats s = list_ex (\<lambda>p. strip_prefix p s \<noteq> None) pats"

fun addr_scan :: "bool \<Rightarrow> jstring \<Rightarrow> bool" where
  \<comment> \<open>\<open>seen\<close>: a character of the class stands before this position with no line
      terminator after it\<close>
  "addr_scan seen [] = False"
| "addr_scan seen (c # cs) =
     ((seen \<and> starts_with_any addr_suffixes (c # cs)) \<or>
      addr_scan (if is_cjk_or_digit c then True else if is_line_term c then False else seen) cs)"

definition url_like :: "jstring \<Rightarrow> bool" where
  \<comment> \<open>\<open>/api=1&query=|https?:|^www\./i\<close>\<close>
  "url_like s =
     (has_maps_query s \<or> contains (asc ''http:'') (lower_ascii s) \<or>
      contains (asc ''https:'') (lower_ascii s) \<or> starts_www s)"

definition looksLikeAddress :: "jstring \<Rightarrow> bool" where
  "looksLikeAddress s = (addr_scan False s \<and> \<not> url_like s)"

definition normalize_stop :: "jstring \<Rightarrow> jstring" where
  \<comment> \<open>\<open>normalize\<close>: the label of a string that is one link as a whole, else the string;
      trimmed\<close>
  "normalize_stop s = trim (case md_at s of Some (g, []) \<Rightarrow> g | _ \<Rightarrow> s)"

definition is_bullet :: "int \<Rightarrow> bool" where
  \<comment> \<open>the class of list bullets: \<open>-\<close>, \<open>*\<close>, U+25CF, U+30FB, the digits and \<open>.\<close>\<close>
  "is_bullet c = (c = 45 \<or> c = 42 \<or> c = 9679 \<or> c = 12539 \<or> is_digit c \<or> c = 46)"

definition arrow_at :: "jstring \<Rightarrow> jstring option" where
  \<comment> \<open>the arrow U+2192 or \<open>->\<close> at the head of the string\<close>
  "arrow_at s = (case strip_prefix [8594] s of Some r \<Rightarrow> Some r | None \<Rightarrow> strip_prefix [45, 62] s)"

definition arrow_tail :: "jstring \<Rightarrow> jstring option" where
  \<comment> \<open>\<open>\s*(.+)$\<close> after the arrow: the capture is the text after the white space, which
      must reach the end of the string without a line terminator; when only white space
      follows, the capture is its last character\<close>
  "arrow_tail r =
     (let t = dropWhile is_space r in
      if t \<noteq> [] then (if list_ex is_line_term t then None else Some t)
      else if r \<noteq> [] \<and> \<not> is_line_term (last r) then Some [last r] else None)"

definition arrow_capture :: "jstring \<Rightarrow> jstring option" where
  \<comment> \<open>\<open>trimmed.match(/^(?:BULLETS+\s*)?(?:ARROW|->)\s*(.+)$/)\<close>: the bullet run
      may give back its last \<open>-\<close> to the arrow \<open>->\<close>\<close>
  "arrow_capture s =
     (let run = takeWhile is_bullet s; rest = dropWhile is_bullet s in
      if run = [] then (case arrow_at s of None \<Rightarrow> None | Some r \<Rightarrow> arrow_tail r)
      else (case arrow_at (dropWhile is_space rest) of
              Some r \<Rightarrow> arrow_tail r
            | None \<Rightarrow> if last run = 45 \<and> take 1 rest = [62] then arrow_tail (drop 1 rest)
                      else None))"

definition stop_words :: "jstring list" where
  \<comment> \<open>the ten sequence words of \<open>keywordRegex\<close>\<close>
  "stop_words =
     [[31532, 19968, 31449], [31532, 20108, 31449], [31532, 19977, 31449], [20808, 21040],
      [20877, 21040], [36884, 32147], [32147, 20572], [36884, 20013], [36681, 36865],
      [25509, 32396]]"

definition has_keyword :: "jstring \<Rightarrow> bool" where
  \<comment> \<open>\<open>keywordRegex.test(trimmed)\<close>: a sequence word or an arrow anywhere\<close>
  "has_keyword s = list_ex (\<lambda>k. contains k s) (stop_words @ [[8594], [45, 62]])"

fun strip_first :: "jstring list \<Rightarrow> jstring \<Rightarrow> jstring option" where
  "strip_first [] s = None"
| "strip_first (p # ps) s = (case strip_prefix p s of Some r \<Rightarrow> Some r | None \<Rightarrow> strip_first ps s)"

definition strip_keyword :: "jstring \<Rightarrow> jstring" where
  \<comment> \<open>\<open>part.replace(/^(?:WORDS)[::\s-]*/, '')\<close>\<close>
  "strip_keyword part =
     (case strip_first stop_words part of
        None \<Rightarrow> part
      | Some r \<Rightarrow> dropWhile (\<lambda>c. is_colon c \<or> is_space c \<or> c = 45) r)"

definition is_mid_delim :: "int \<Rightarrow> bool" where
  \<comment> \<open>the separators of a stop line: full-width comma, comma, ideographic comma,
      slash, semicolon\<close>
  "is_mid_delim c = (c = 65292 \<or> c = 44 \<or> c = 12289 \<or> c = 47 \<or> c = 59)"

definition remark_rest :: "jstring \<Rightarrow> jstring option" where
  \<comment> \<open>\<open>/^\s*(REMARKS|Notes?)[::]/i\<close>: the text after the label and its colon\<close>
  "remark_rest s =
     (let t = dropWhile is_space s;
          after = (\<lambda>lab. case strip_prefix lab (lower_ascii (take (length lab) t)) of
                            None \<Rightarrow> None
                          | Some _ \<Rightarrow> req_colon (drop (length lab) t))
      in case after [20854, 20182, 20633, 35387] of Some r \<Rightarrow> Some r | None \<Rightarrow>
        (case after [20633, 35387] of Some r \<Rightarrow> Some r | None \<Rightarrow>
        (case after (asc ''notes'') of Some r \<Rightarrow> Some r | None \<Rightarrow> after (asc ''note''))))"

definition mid_line :: "jstring list \<Rightarrow> jstring \<Rightarrow> jstring list" where
  \<comment> \<open>what one line pushes to \<open>candidates\<close>\<close>
  "mid_line block line =
     (let trimmed = trim line;
          keep = (\<lambda>v. looksLikeAddress v \<and> v \<notin> set block)
      in if trimmed = [] then []
         else (case arrow_capture trimmed of
                 Some a \<Rightarrow> filter keep [normalize_stop a]
               | None \<Rightarrow>
                   (if has_keyword trimmed
                    then filter keep (map (\<lambda>part. normalize_stop (strip_keyword part))
                                          (split_on is_mid_delim trimmed))
                    else []) @
                   (case remark_rest trimmed of
                      None \<Rightarrow> []
                    | Some r \<Rightarrow>
                        (let body = trim r
                         in filter keep (map trim (md_labels body)) @
                            filter keep (map normalize_stop (split_on is_mid_delim body))))))"

definition mid_candidates :: "jstring option \<Rightarrow> jstring list" where
  \<comment> \<open>\<open>candidates\<close>, with the pickup and drop-off lists as the block list\<close>
  "mid_candidates description =
     concat (map (mid_line (pickupAddresses description @ dropoffAddresses description))
                 (desc_lines (or_empty description)))"

definition midStops :: "jstring option \<Rightarrow> jstring list" where
  "midStops description =
     (if or_empty description = [] then [] else take 3 (uniq (mid_candidates description)))"

record stops =
  pickup :: "jstring list"
  dropoff :: "jstring list"
  mid :: "jstring list"

definition reconcile :: "jstring option \<Rightarrow> stops" where
  \<comment> \<open>the three lists the view derives from a description\<close>
  "reconcile description =
     \<lparr>pickup = pickupAddresses description, dropoff = dropoffAddresses description,
      mid = midStops description\<rparr>"

section \<open>Example inputs\<close>

definition shifu_rd_45 :: jstring where
  \<comment> \<open>the address of the fourth scenario of the specification, "Shifu Rd. No. 45"\<close>
  "shifu_rd_45 = [24066, 24220, 36335, 52, 53, 34399]"

definition plain_line :: "jstring \<Rightarrow> int \<Rightarrow> jstring \<Rightarrow> jstring" where
  \<comment> \<open>a labelled line with the address as plain text: label, colon, address\<close>
  "plain_line lab colon a = lab @ [colon] @ a"

definition link_line :: "jstring \<Rightarrow> int \<Rightarrow> jstring \<Rightarrow> jstring \<Rightarrow> jstring" where
  \<comment> \<open>a labelled line with the address as the label of a Markdown link to \<open>u\<close>\<close>
  "link_line lab colon a u = lab @ [colon, 91] @ a @ [93, 40] @ u @ [41]"




definition desc_twice :: jstring where
  \<comment> \<open>one pickup address, once as plain text and once as a link\<close>
  "desc_twice =
     plain_line L_pickup 65306 shifu_rd_45 @ [10] @
     link_line L_pickup 65306 shifu_rd_45 (asc ''https://maps.example/x'')"

definition is_taipei_midnight :: "int \<Rightarrow> bool" where
  \<comment> \<open>the instant reads 00:00:00.000 under the fixed offset +08:00\<close>
  "is_taipei_midnight t = ((t + 8 * msPerHour) mod msPerDay = 0)"

definition valid_normalized :: "norm_result \<Rightarrow> bool" where
  \<comment> \<open>the invariant the specification gives for a normalized event time: \<open>end > start\<close>,
      and for an all-day event a start at local (+08:00) midnight with \<open>end = start + 24h\<close>\<close>
  "valid_normalized r =
     (case (nstart r, nend r) of
        (Instant s, Instant e) \<Rightarrow>
          s < e \<and> (nallDay r \<longrightarrow> is_taipei_midnight s \<and> e = s + 24 * msPerHour)
      | _ \<Rightarrow> False)"

definition desc_20aug_0930 :: jstring where
  \<comment> \<open>two lines of a transport document: the trip date 2024-08-20 and the trip time 09:30,
      each under its long label with a full-width colon\<close>
  "desc_20aug_0930 =
     L_xingcheng_riqi @ [65306] @ asc ''2024'' @ [24180] @ asc ''8'' @ [26376] @ asc ''20'' @ [26085]
     @ [10] @ L_xingcheng_shijian @ [65306] @ asc ''09:30''"

definition args_pickup :: tool_args where
  "args_pickup =
     \<lparr>a_title = Some (asc ''Pickup''), a_startTime = Some (asc ''2024-08-15T14:00''),
      a_endTime = Some (asc ''2024-08-15T15:00''), a_description = Some desc_20aug_0930,
      a_location = None, a_allDay = Some False\<rparr>"

definition args_all_day :: tool_args where
  "args_all_day =
     \<lparr>a_title = Some (asc ''Holiday''), a_startTime = Some (asc ''2025-11-30''),
      a_endTime = None, a_description = None, a_location = None, a_allDay = Some True\<rparr>"

definition no_args :: tool_args where
  "no_args = \<lparr>a_title = None, a_startTime = None, a_endTime = None, a_description = None,
              a_location = None, a_allDay = None\<rparr>"

definition stored_meeting :: doc where
  "stored_meeting =
     \<lparr>f_title = Some (asc ''Meeting''), f_startTime = Some (TDate (Instant 1724119200000)),
      f_endTime = Some (TDate (Instant 1724126400000)), f_description = Some [],
      f_location = Some [], f_allDay = Some False\<rparr>"

definition clock :: int where
  \<comment> \<open>a reading of the clock: 2024-08-15T06:00:00Z\<close>
  "clock = 1723701600000"

section \<open>Properties of the flight correlator\<close>

lemma pickFirstNonNull_Some_iff:
  "pickFirstNonNull vs = Some s \<longleftrightarrow>
     (\<exists>i<length vs. vs ! i = Some s \<and> s \<noteq> [] \<and> (\<forall>j<i. \<not> truthy (vs ! j)))"
proof (induction vs)
  case Nil
  then show ?case by simp
next
  case (Cons v vs)
  show ?case
  proof (cases "truthy v")
    case True
    then obtain t where v: "v = Some t" "t \<noteq> []"
      by (auto simp: truthy_def split: option.splits)
    have "(\<exists>i<length (v # vs). (v # vs) ! i = Some s \<and> s \<noteq> [] \<and> (\<forall>j<i. \<not> truthy ((v # vs) ! j)))
          \<longleftrightarrow> s = t"
    proof
      assume "\<exists>i<length (v # vs). (v # vs) ! i = Some s \<and> s \<noteq> [] \<and> (\<forall>j<i. \<not> truthy ((v # vs) ! j))"
      then obtain i where i: "(v # vs) ! i = Some s" "\<forall>j<i. \<not> truthy ((v # vs) ! j)" by blast
      have "i = 0"
      proof (rule ccontr)
        assume "i \<noteq> 0"
        then have "\<not> truthy ((v # vs) ! 0)" using i(2) by blast
        then show False using True by simp
      qed
      then show "s = t" using i(1) v by simp
    next
      assume "s = t"
      then have "(v # vs) ! 0 = Some s \<and> s \<noteq> [] \<and> (\<forall>j<0. \<not> truthy ((v # vs) ! j))"
        using v by simp
      then show "\<exists>i<length (v # vs). (v # vs) ! i = Some s \<and> s \<noteq> [] \<and> (\<forall>j<i. \<not> truthy ((v # vs) ! j))"
        by (intro exI[of _ 0]) simp
    qed
    moreover have "pickFirstNonNull (v # vs) = Some t" using v by simp
    ultimately show ?thesis by auto
  next
    case False
    then have pf: "pickFirstNonNull (v # vs) = pickFirstNonNull vs"
      by (auto simp: truthy_def split: option.splits)
    have "(\<exists>i<length (v # vs). (v # vs) ! i = Some s \<and> s \<noteq> [] \<and> (\<forall>j<i. \<not> truthy ((v # vs) ! j)))
          \<longleftrightarrow> (\<exists>i<length vs. vs ! i = Some s \<and> s \<noteq> [] \<and> (\<forall>j<i. \<not> truthy (vs ! j)))"
      (is "?L \<longleftrightarrow> ?R")
    proof
      assume ?L
      then obtain i where i: "i < length (v # vs)" "(v # vs) ! i = Some s" "s \<noteq> []"
        "\<forall>j<i. \<not> truthy ((v # vs) ! j)" by blast
      have "i \<noteq> 0"
      proof
        assume "i = 0"
        then have "v = Some s" using i(2) by simp
        then show False using i(3) False by (simp add: truthy_def)
      qed
      then obtain k where k: "i = Suc k" by (cases i) auto
      have "\<forall>j<k. \<not> truthy (vs ! j)"
      proof (intro allI impI)
        fix j assume "j < k"
        then have "Suc j < i" using k by simp
        then have "\<not> truthy ((v # vs) ! Suc j)" using i(4) by blast
        then show "\<not> truthy (vs ! j)" by simp
      qed
      then show ?R using i k by (intro exI[of _ k]) simp
    next
      assume ?R
      then obtain k where k: "k < length vs" "vs ! k = Some s" "s \<noteq> []" "\<forall>j<k. \<not> truthy (vs ! j)"
        by blast
      have "\<forall>j<Suc k. \<not> truthy ((v # vs) ! j)"
      proof (intro allI impI)
        fix j assume "j < Suc k"
        then show "\<not> truthy ((v # vs) ! j)" using False k(4) by (cases j) auto
      qed
      then show ?L using k by (intro exI[of _ "Suc k"]) simp
    qed
    then show ?thesis using pf Cons.IH by simp
  qed
qed







text \<open>
  Claim C9, as the code has it. The arrival text used for matching (and reported as the
  estimated arrival) is the first value that is neither null nor empty in the order
  \<open>actual_in\<close>, \<open>estimated_in\<close>, \<open>actual_on\<close>, \<open>estimated_on\<close>, \<open>scheduled_in\<close>,
  \<open>scheduled_on\<close>: the gate values come before the runway values, actual before estimated
  within each, and the two scheduled values last. The instant of a candidate is the parse
  of that text.
\<close>

theorem arrival_preference_order:
  "(arrivalIso f = Some s \<longleftrightarrow>
      (\<exists>i<6. [actual_in f, estimated_in f, actual_on f, estimated_on f, scheduled_in f, scheduled_on f] ! i = Some s
            \<and> s \<noteq> []
            \<and> (\<forall>j<i. \<not> truthy ([actual_in f, estimated_in f, actual_on f, estimated_on f,
                                   scheduled_in f, scheduled_on f] ! j))))
   \<and> arrival_instant rt f = (case parseDate rt (arrivalIso f) of Some d \<Rightarrow> getTime d | None \<Rightarrow> None)
   \<and> p_estimatedArrival (mapFlightToStatus rt f) = arrivalIso f"
proof -
  let ?vs = "[actual_in f, estimated_in f, actual_on f, estimated_on f, scheduled_in f, scheduled_on f]"
  have len: "length ?vs = 6" by simp
  have "arrivalIso f = Some s \<longleftrightarrow>
          (\<exists>i<length ?vs. ?vs ! i = Some s \<and> s \<noteq> [] \<and> (\<forall>j<i. \<not> truthy (?vs ! j)))"
    unfolding arrivalIso_def by (rule pickFirstNonNull_Some_iff)
  then have a: "arrivalIso f = Some s \<longleftrightarrow>
          (\<exists>i<6. ?vs ! i = Some s \<and> s \<noteq> [] \<and> (\<forall>j<i. \<not> truthy (?vs ! j)))"
    by (simp only: len)
  have b: "arrival_instant rt f = (case parseDate rt (arrivalIso f) of Some d \<Rightarrow> getTime d | None \<Rightarrow> None)"
    by (simp add: arrival_instant_def to_item_def m_ts_def)
  have c: "p_estimatedArrival (mapFlightToStatus rt f) = arrivalIso f"
    by (simp add: mapFlightToStatus_def)
  from a b c show ?thesis by blast
qed

theorem arrival_preference_order_witness:
  "\<exists>i<6. [actual_in flight_taxiing, estimated_in flight_taxiing, actual_on flight_taxiing,
           estimated_on flight_taxiing, scheduled_in flight_taxiing, scheduled_on flight_taxiing] ! i
            = Some (asc ''2024-08-15T09:50:00Z'')
        \<and> asc ''2024-08-15T09:50:00Z'' \<noteq> []
        \<and> (\<forall>j<i. \<not> truthy ([actual_in flight_taxiing, estimated_in flight_taxiing,
                               actual_on flight_taxiing, estimated_on flight_taxiing,
                               scheduled_in flight_taxiing, scheduled_on flight_taxiing] ! j))"
proof -
  have "arrivalIso flight_taxiing = Some (asc ''2024-08-15T09:50:00Z'')"
    by (simp add: arrivalIso_def flight_taxiing_def blank_flight_def asc_def)
  then show ?thesis
    using arrival_preference_order[of flight_taxiing "asc ''2024-08-15T09:50:00Z''"] by blast
qed

text \<open>
  The order of claim C9 as it is worded (every actual value before every estimated one) is
  not the order of the code: for a flight that has landed, with a runway time but only an
  estimated gate time, the code takes the estimated gate time.
\<close>

theorem arrival_by_kind_counterexample:
  "arrivalIso flight_taxiing = Some (asc ''2024-08-15T09:50:00Z'') \<and>
   arrival_by_kind flight_taxiing = Some (asc ''2024-08-15T09:41:00Z'') \<and>
   arrivalIso flight_taxiing \<noteq> arrival_by_kind flight_taxiing"
  by (simp add: arrivalIso_def arrival_by_kind_def flight_taxiing_def blank_flight_def asc_def)



text \<open>
  The fifth scenario of the specification: a query for 2024-08-15T10:00Z against records
  landing at 14:00Z and at 09:50Z returns the 09:50Z record, wherever it stands in the reply.
\<close>

lemma lookup_scenario:
  "queryFlightAwareStatus (server_utc 0) [flight_1400, flight_0950] 1723716000000
     = Some (mapFlightToStatus (server_utc 0) flight_0950)"
  by code_simp

section \<open>Properties of the normalizer\<close>

text \<open>
  What holds of \<open>normalizeEventTimesFromText\<close> in every runtime: when both results are valid
  dates the end lies after the start; with no start and no end given the event starts now
  and lasts an hour; and a start that is given but that \<open>Date.parse\<close> rejects stays an
  invalid date, in the all-day case too.
\<close>

lemma timeClip_Instant: "timeClip t = Instant u \<Longrightarrow> u = t"
  by (simp add: timeClip_def split: if_splits)

lemma plus_ms_Instant: "plus_ms d k = Instant u \<Longrightarrow> \<exists>t. d = Instant t \<and> u = t + k"
  by (cases d) (auto simp: plus_ms_def newDate_num_def getTime_def dest: timeClip_Instant)

lemma ensure_end_after_gt:
  "ensure_end_after (Instant s) e' = Instant e \<Longrightarrow> s < e"
  by (cases e') (auto simp: ensure_end_after_def date_le_def getTime_def
                    dest: plus_ms_Instant split: if_splits)

lemma end_after_start_when_valid:
  assumes "nstart (normalizeEventTimesFromText rt args) = Instant s"
      and "nend (normalizeEventTimesFromText rt args) = Instant e"
  shows "s < e"
  using assms
  by (auto simp: normalizeEventTimesFromText_def Let_def split: prod.splits dest: ensure_end_after_gt)

lemma absent_times_default_to_now:
  assumes "\<not> truthy (startTime args)" "\<not> truthy (endTime args)" "allDay args \<noteq> Some True"
      and "\<bar>now rt\<bar> \<le> maxTime - msPerHour"
  shows "normalizeEventTimesFromText rt args
           = \<lparr>nstart = Instant (now rt), nend = Instant (now rt + msPerHour), nallDay = False\<rparr>"
proof -
  have p: "parseModelDateTimeLocal rt (startTime args) = None"
          "parseModelDateTimeLocal rt (endTime args) = None"
    using assms(1,2) by (simp_all add: parseModelDateTimeLocal_def)
  have n: "newDate_now rt = Instant (now rt)"
    using assms(4) by (simp add: newDate_now_def timeClip_def msPerHour_def maxTime_def)
  have s: "raw_start rt args = Instant (now rt)"
    using assms(1) p n by (simp add: raw_start_def Let_def)
  have e: "plus_ms (Instant (now rt)) (60 * 60 * 1000) = Instant (now rt + msPerHour)"
    using assms(4)
    by (simp add: plus_ms_def newDate_num_def getTime_def timeClip_def msPerHour_def maxTime_def)
  have r: "raw_end rt args (Instant (now rt)) = Instant (now rt + msPerHour)"
    using assms(2) p e by (simp add: raw_end_def Let_def)
  have l: "ensure_end_after (Instant (now rt)) (Instant (now rt + msPerHour)) = Instant (now rt + msPerHour)"
    by (simp add: ensure_end_after_def date_le_def getTime_def msPerHour_def)
  show ?thesis
    using assms(3) s r l by (simp add: normalizeEventTimesFromText_def Let_def)
qed

lemma snap_all_day_invalid: "snap_all_day rt InvalidDate = (InvalidDate, InvalidDate)"
  by (simp add: snap_all_day_def Let_def local_ymd_def newDate_local_def plus_ms_def
                newDate_num_def getTime_def)

lemma unparseable_start_stays_invalid:
  assumes "truthy (startTime args)" "dateParse rt (the (startTime args)) = None"
      and "parseModelDateTimeLocal rt (startTime args) = None"
  shows "nstart (normalizeEventTimesFromText rt args) = InvalidDate"
proof -
  have i: "newDate_str rt (the (startTime args)) = InvalidDate"
    using assms(2) by (simp add: newDate_str_def newDate_num_def)
  have s: "raw_start rt args = InvalidDate"
    using assms(1,3) i by (simp add: raw_start_def Let_def)
  show ?thesis
    using s by (simp add: normalizeEventTimesFromText_def Let_def snap_all_day_invalid)
qed

text \<open>
  Claim C6 at an input the code receives: a start text that matches no pattern. The parse
  returns null, and the next line builds \<open>new Date(args.startTime)\<close>, an invalid date object
  that is truthy, so the fallback to the current instant is skipped: start and end are both
  invalid dates. With no start text at all the fallback does apply.
\<close>

theorem unparseable_start_not_recovered:
  "parseModelDateTimeLocal (browser_taipei clock) (Some (asc ''tomorrow 3pm'')) = None \<and>
   normalizeEventTimesFromText (browser_taipei clock)
       \<lparr>startTime = Some (asc ''tomorrow 3pm''), endTime = None, allDay = Some False\<rparr>
     = \<lparr>nstart = InvalidDate, nend = InvalidDate, nallDay = False\<rparr> \<and>
   normalizeEventTimesFromText (browser_taipei clock)
       \<lparr>startTime = None, endTime = None, allDay = Some False\<rparr>
     = \<lparr>nstart = Instant clock, nend = Instant (clock + msPerHour), nallDay = False\<rparr>"
  by code_simp

text \<open>
  Claim C3 at an input the code receives: the start text names month 13, the end text is a
  valid time. The start is an invalid date, the comparison \<open>end <= start\<close> with NaN is false,
  and the result does not satisfy \<open>end > start\<close>.
\<close>

theorem end_not_after_unparseable_start:
  "normalizeEventTimesFromText (browser_taipei clock)
       \<lparr>startTime = Some (asc ''2024-13-45''), endTime = Some (asc ''2024-08-15T13:00''),
        allDay = Some False\<rparr>
     = \<lparr>nstart = InvalidDate, nend = Instant 1723698000000, nallDay = False\<rparr> \<and>
   \<not> date_gt (Instant 1723698000000) InvalidDate"
  by code_simp

text \<open>
  Claim C2 at inputs the code receives. In a runtime whose local zone is UTC, the all-day
  event for the bare date 2025-11-30 starts at 2025-11-29T00:00Z: the start was parsed as
  2025-11-30T00:00+08:00, and the local getters then cut it to the midnight of the runtime's
  own zone, which is 08:00 of the day before under +08:00. And an all-day event whose
  start text is not a date has an invalid start and end, in any zone.
\<close>

theorem all_day_start_not_taipei_midnight:
  "normalizeEventTimesFromText (server_utc clock) (norm_of args_all_day)
     = \<lparr>nstart = Instant 1764374400000, nend = Instant 1764460800000, nallDay = True\<rparr> \<and>
   \<not> is_taipei_midnight 1764374400000 \<and>
   raw_start (server_utc clock) (norm_of args_all_day) = Instant 1764432000000 \<and>
   is_taipei_midnight 1764432000000 \<and>
   normalizeEventTimesFromText (browser_taipei clock)
       \<lparr>startTime = Some (asc ''next Friday''), endTime = None, allDay = Some True\<rparr>
     = \<lparr>nstart = InvalidDate, nend = InvalidDate, nallDay = True\<rparr>"
  by code_simp

text \<open>
  Claim C5 at an input the code receives: a valid all-day triple (start at +08:00 midnight,
  end 24 hours later), given back to the normalizer as ISO strings in a runtime whose local
  zone is UTC, does not come back unchanged: the start moves to the runtime's midnight.
\<close>

theorem renormalizing_valid_all_day_moves_start:
  "valid_normalized \<lparr>nstart = Instant 1764432000000, nend = Instant 1764518400000, nallDay = True\<rparr> \<and>
   parseModelDateTimeLocal (server_utc clock) (Some (asc ''2025-11-29T16:00:00.000Z''))
     = Some (Instant 1764432000000) \<and>
   parseModelDateTimeLocal (server_utc clock) (Some (asc ''2025-11-30T16:00:00.000Z''))
     = Some (Instant 1764518400000) \<and>
   normalizeEventTimesFromText (server_utc clock)
       \<lparr>startTime = Some (asc ''2025-11-29T16:00:00.000Z''),
        endTime = Some (asc ''2025-11-30T16:00:00.000Z''), allDay = Some True\<rparr>
     = \<lparr>nstart = Instant 1764374400000, nend = Instant 1764460800000, nallDay = True\<rparr>"
  by code_simp

theorem renormalizing_valid_all_day_moves_start_witness:
  "nallDay \<lparr>nstart = Instant 1764432000000, nend = Instant 1764518400000, nallDay = True\<rparr> \<and>
   is_taipei_midnight 1764432000000 \<and>
   (1764518400000 :: int) = 1764432000000 + 24 * msPerHour"
  using renormalizing_valid_all_day_moves_start
  by (simp add: valid_normalized_def)

text \<open>
  Claim C1 at inputs the code receives. With the runtime held fixed, the client's create
  path keeps the start of the ISO fields while the server's create path takes the date and
  time written in the description; and for a bare date with \<open>allDay\<close>, a client in the zone
  +08:00 and a server in the zone UTC store different starts.
\<close>

theorem client_server_create_differ:
  "e_startTime (client_create (browser_taipei clock) args_pickup) = Instant 1723701600000 \<and>
   e_startTime (server_create (browser_taipei clock) args_pickup) = Instant 1724117400000 \<and>
   e_startTime (client_create (browser_taipei clock) args_all_day) = Instant 1764432000000 \<and>
   e_startTime (server_create (server_utc clock) args_all_day) = Instant 1764374400000"
  by code_simp

section \<open>Properties of the handlers\<close>




text \<open>
  Claim C7 at inputs the code receives: a stored event from 10:00 to 12:00 on 2024-08-20.
  An update carrying only \<open>allDay = true\<close> rewrites its start and end from the current
  instant, on the server and on the client; an update carrying only a start rewrites the
  end to one hour after it and the all-day flag to false.
\<close>

theorem all_day_only_update_rewrites_times:
  "f_startTime stored_meeting = Some (TDate (Instant 1724119200000)) \<and>
   f_endTime stored_meeting = Some (TDate (Instant 1724126400000)) \<and>
   f_startTime (apply_update stored_meeting (server_update (server_utc clock) (no_args\<lparr>a_allDay := Some True\<rparr>)))
     = Some (TDate (Instant 1723680000000)) \<and>
   f_endTime (apply_update stored_meeting (server_update (server_utc clock) (no_args\<lparr>a_allDay := Some True\<rparr>)))
     = Some (TDate (Instant 1723766400000)) \<and>
   f_startTime (apply_update stored_meeting (client_update (browser_taipei clock) (no_args\<lparr>a_allDay := Some True\<rparr>)))
     = Some (TDate (Instant 1723651200000)) \<and>
   f_endTime (apply_update stored_meeting
               (client_update (browser_taipei clock) (no_args\<lparr>a_startTime := Some (asc ''2024-08-20T10:00'')\<rparr>)))
     = Some (TDate (Instant 1724122800000)) \<and>
   f_allDay (apply_update (stored_meeting\<lparr>f_allDay := Some True\<rparr>)
               (client_update (browser_taipei clock) (no_args\<lparr>a_startTime := Some (asc ''2024-08-20T10:00'')\<rparr>)))
     = Some False"
  by code_simp

text \<open>
  What the update paths do leave alone: title, description and location pass through as
  given, and a payload without start, end and all-day flag changes none of the three.
\<close>

lemma update_frame_other_fields:
  "f_title (server_update rt u) = a_title u \<and> f_description (server_update rt u) = a_description u \<and>
   f_location (server_update rt u) = a_location u \<and>
   f_title (client_update rt u) = a_title u \<and> f_description (client_update rt u) = a_description u \<and>
   f_location (client_update rt u) = a_location u"
  by (simp add: server_update_def client_update_def Let_def)

lemma update_frame_no_time_field:
  assumes "a_startTime u = None" "a_endTime u = None" "a_allDay u = None"
  shows "f_startTime (apply_update stored (server_update rt u)) = f_startTime stored \<and>
         f_endTime (apply_update stored (server_update rt u)) = f_endTime stored \<and>
         f_allDay (apply_update stored (server_update rt u)) = f_allDay stored \<and>
         f_startTime (apply_update stored (client_update rt u)) = f_startTime stored \<and>
         f_endTime (apply_update stored (client_update rt u)) = f_endTime stored \<and>
         f_allDay (apply_update stored (client_update rt u)) = f_allDay stored"
  using assms
  by (simp add: server_update_def client_update_def Let_def time_guard_def truthy_def
                apply_update_def merge_field_def)

section \<open>Properties of the stop lists\<close>


















lemma in_labelled_items:
  assumes "l \<in> set (desc_lines d)" "contains lab l" "a \<in> set (line_items lab l)" "\<not> is_noise a"
  shows "a \<in> set (labelled_items lab (Some d))"
  using assms by (auto simp: labelled_items_def or_empty_def)











text \<open>
  The third and fourth scenarios of the specification: an arrow line gives an intermediate
  stop, and an address given twice is listed once.
\<close>

lemma stop_scenarios:
  "pickupAddresses (Some desc_twice) = [shifu_rd_45]"
  "reconcile (Some (plain_line L_pickup 65306 (asc ''A'') @ [10] @ plain_line L_dropoff 65306 (asc ''B'')
                    @ [10, 8594] @ shifu_rd_45))
     = \<lparr>pickup = [asc ''A''], dropoff = [asc ''B''], mid = [shifu_rd_45]\<rparr>"
  by code_simp+

end
